theory Spec2Isabelle
  imports Complex_Main
begin

section \<open>Lifespan inflation calculator: the projection engine\<close>

text \<open>
  The calculator's logic sits in the \<open>useMemo\<close> bodies of the \<open>App\<close> components.
  JavaScript numbers are modelled as exact reals; the horizon \<open>extraYears\<close> and the loop
  counter \<open>k\<close> are natural numbers (the slider yields integers from 0 to 60), so
  \<open>Math.pow(x, k)\<close> is \<open>x ^ k\<close>. A division by zero gives \<open>Infinity\<close> or \<open>NaN\<close> in the
  code and \<open>0\<close> in HOL. The quotients by a power of \<open>1 + a\<close> have a zero divisor only
  when the growth rate is \<open>-1\<close>, below the slider's range, and a statement about the
  value of such a quotient assumes that it is not. The averages divide by the horizon,
  which the slider lets be \<open>0\<close>: they are computed with \<open>js_div\<close>, which keeps the
  result of a division by zero visible.
\<close>

subsection \<open>JavaScript numbers\<close>

text \<open>A number with the non-finite values made explicit.\<close>

datatype jsnum = Finite real | PosInfinity | NegInfinity | NaN

fun isFinite :: "jsnum \<Rightarrow> bool" where
  "isFinite (Finite x) = True"
| "isFinite PosInfinity = False"
| "isFinite NegInfinity = False"
| "isFinite NaN = False"

text \<open>The comparison \<open>x <= 0\<close>: false on \<open>NaN\<close>, true on \<open>-Infinity\<close>.\<close>

fun le_zero :: "jsnum \<Rightarrow> bool" where
  "le_zero (Finite x) = (x \<le> 0)"
| "le_zero PosInfinity = False"
| "le_zero NegInfinity = True"
| "le_zero NaN = False"

text \<open>
  The quotient \<open>x / y\<close> of two finite numbers, the divisor being \<open>+0\<close> when it is zero
  (a loop bound is never \<open>-0\<close>): \<open>0 / 0\<close> is \<open>NaN\<close>, and a non-zero number over zero is
  the infinity of its sign.
\<close>

definition js_div :: "real \<Rightarrow> real \<Rightarrow> jsnum" where
  "js_div x y =
    (if y = 0 then (if x = 0 then NaN else if 0 < x then PosInfinity else NegInfinity)
     else Finite (x / y))"

subsection \<open>Portfolio variant (src/src/App.tsx)\<close>

record YearPoint =
  year :: nat
  ratio :: real
  E_nom_usd :: real
  P_usd :: real
  E_btc :: real
  P_btc :: real

text \<open>The variables the loop mutates: \<open>points\<close> and the four \<open>let\<close> bindings.\<close>

record loop_state =
  points :: "YearPoint list"
  runningUsdExpensesTotal :: real
  runningBtcExpensesTotal :: real
  portfolioUsd :: real
  depletion :: "nat option"

definition ratioBase :: "real \<Rightarrow> real \<Rightarrow> real" where
  "ratioBase i a = (1 + i) / (1 + a)"

text \<open>One iteration of \<open>for (let k = 0; k <= extraYears; k += 1)\<close>.\<close>

definition loop_body :: "real \<Rightarrow> real \<Rightarrow> real \<Rightarrow> nat \<Rightarrow> loop_state \<Rightarrow> loop_state" where
  "loop_body i a annualExpenseToday k s =
    (let ratio_k = ratioBase i a ^ k;
         btcUsdIndex = (1 + a) ^ k;
         nominalExpenseUsd = annualExpenseToday * (1 + i) ^ k;
         usdTotal = (if k > 0 then runningUsdExpensesTotal s + nominalExpenseUsd
                     else runningUsdExpensesTotal s);
         portfolio = (if k > 0 then portfolioUsd s * (1 + a) - nominalExpenseUsd
                      else portfolioUsd s);
         depl = (if k > 0 \<and> depletion s = None \<and> portfolio \<le> 0 then Some k
                 else depletion s);
         expenseBtc = nominalExpenseUsd / btcUsdIndex;
         portfolioBtc = portfolio / btcUsdIndex;
         btcTotal = (if k > 0 then runningBtcExpensesTotal s + expenseBtc
                     else runningBtcExpensesTotal s)
     in \<lparr>points = points s @
            [\<lparr>year = k, ratio = ratio_k, E_nom_usd = nominalExpenseUsd, P_usd = portfolio,
              E_btc = expenseBtc, P_btc = portfolioBtc\<rparr>],
         runningUsdExpensesTotal = usdTotal,
         runningBtcExpensesTotal = btcTotal,
         portfolioUsd = portfolio,
         depletion = depl\<rparr>)"

function loop :: "real \<Rightarrow> real \<Rightarrow> real \<Rightarrow> nat \<Rightarrow> nat \<Rightarrow> loop_state \<Rightarrow> loop_state" where
  "loop i a annualExpenseToday extraYears k s =
    (if k \<le> extraYears
     then loop i a annualExpenseToday extraYears (k + 1) (loop_body i a annualExpenseToday k s)
     else s)"
  by pat_completeness auto
termination
  by (relation "measure (\<lambda>(i, a, e, T, k, s). Suc T - k)") auto

declare loop.simps [simp del]

definition init_state :: "real \<Rightarrow> loop_state" where
  "init_state startingPortfolio =
    \<lparr>points = [], runningUsdExpensesTotal = 0, runningBtcExpensesTotal = 0,
     portfolioUsd = startingPortfolio, depletion = None\<rparr>"

record projection_result =
  series :: "YearPoint list"
  lifespanInflationFactor :: real
  lifespanInflationPercent :: real
  finalRatio :: real
  finalAnnualExpenseUsd :: real
  finalAnnualExpenseBtc :: real
  totalExpensesUsd :: real
  totalExpensesBtc :: real
  avgAnnualExpenseUsd :: jsnum
  avgAnnualExpenseBtc :: jsnum
  finalPortfolioUsd :: real
  finalPortfolioBtc :: real
  depletionYear :: "nat option"

text \<open>
  The body of the \<open>useMemo\<close>. The object that stands in for a missing last point has no
  \<open>year\<close> field in the source; the field is never read and is \<open>0\<close> here.
\<close>

definition projection :: "real \<Rightarrow> real \<Rightarrow> nat \<Rightarrow> real \<Rightarrow> real \<Rightarrow> projection_result" where
  "projection inflationPercent assetGrowthPercent extraYears annualExpenseToday startingPortfolio =
    (let i = inflationPercent / 100;
         a = assetGrowthPercent / 100;
         lif = ratioBase i a ^ extraYears - 1;
         s = loop i a annualExpenseToday extraYears 0 (init_state startingPortfolio);
         finalPoint =
           (if points s = []
            then \<lparr>year = 0, ratio = 1, E_nom_usd = annualExpenseToday,
                  P_usd = startingPortfolio, E_btc = annualExpenseToday,
                  P_btc = startingPortfolio\<rparr>
            else last (points s))
     in \<lparr>series = points s,
         lifespanInflationFactor = lif,
         lifespanInflationPercent = lif * 100,
         finalRatio = ratio finalPoint,
         finalAnnualExpenseUsd = E_nom_usd finalPoint,
         finalAnnualExpenseBtc = E_btc finalPoint,
         totalExpensesUsd = runningUsdExpensesTotal s,
         totalExpensesBtc = runningBtcExpensesTotal s,
         avgAnnualExpenseUsd =
           (if extraYears > 0 then js_div (runningUsdExpensesTotal s) (real extraYears)
            else Finite 0),
         avgAnnualExpenseBtc =
           (if extraYears > 0 then js_div (runningBtcExpensesTotal s) (real extraYears)
            else Finite 0),
         finalPortfolioUsd = P_usd finalPoint,
         finalPortfolioBtc = P_btc finalPoint,
         depletionYear = depletion s\<rparr>)"

subsection \<open>Cumulative-cost variant (src/unnamed/part_000, second component)\<close>

text \<open>
  The price override is a text field read with \<open>Number(...)\<close>, which may yield \<open>NaN\<close> or
  an infinity. The built-in conversion is a parameter of the model; its result is a
  JavaScript number with the non-finite values made explicit.
\<close>

definition effectiveBtcPrice :: "(string \<Rightarrow> jsnum) \<Rightarrow> string \<Rightarrow> jsnum \<Rightarrow> jsnum" where
  "effectiveBtcPrice Number btcPriceInput fetchedBtcPrice =
    (let parsed = Number btcPriceInput
     in if \<not> isFinite parsed \<or> le_zero parsed then fetchedBtcPrice else parsed)"

datatype ScaleMode = Linear | Log

record CumYearPoint =
  cum_year :: nat
  cumUsd :: real
  cumBtc :: real

record cum_loop_state =
  cum_points :: "CumYearPoint list"
  runningUsdTotal :: real
  runningBtcTotal :: real

definition cum_loop_body ::
    "real \<Rightarrow> real \<Rightarrow> real \<Rightarrow> real \<Rightarrow> nat \<Rightarrow> cum_loop_state \<Rightarrow> cum_loop_state" where
  "cum_loop_body i a annualExpenseToday effectivePrice k s =
    (let expenseUsd = annualExpenseToday * (1 + i) ^ k;
         btcPrice = effectivePrice * (1 + a) ^ k;
         expenseBtc = expenseUsd / btcPrice;
         usdTotal = (if k > 0 then runningUsdTotal s + expenseUsd else runningUsdTotal s);
         btcTotal = (if k > 0 then runningBtcTotal s + expenseBtc else runningBtcTotal s)
     in \<lparr>cum_points = cum_points s @ [\<lparr>cum_year = k, cumUsd = usdTotal, cumBtc = btcTotal\<rparr>],
         runningUsdTotal = usdTotal,
         runningBtcTotal = btcTotal\<rparr>)"

function cum_loop ::
    "real \<Rightarrow> real \<Rightarrow> real \<Rightarrow> real \<Rightarrow> nat \<Rightarrow> nat \<Rightarrow> cum_loop_state \<Rightarrow> cum_loop_state" where
  "cum_loop i a annualExpenseToday effectivePrice extraYears k s =
    (if k \<le> extraYears
     then cum_loop i a annualExpenseToday effectivePrice extraYears (k + 1)
            (cum_loop_body i a annualExpenseToday effectivePrice k s)
     else s)"
  by pat_completeness auto
termination
  by (relation "measure (\<lambda>(i, a, e, p, T, k, s). Suc T - k)") auto

declare cum_loop.simps [simp del]

text \<open>
  \<open>Math.min(...xs)\<close> is only called behind the test \<open>xs.length > 0\<close>; the other branch
  is the default of the axis domain.
\<close>

definition minPositive :: "real list \<Rightarrow> real \<Rightarrow> real" where
  "minPositive positives dflt = (if length positives > 0 then Min (set positives) else dflt)"

record cum_result =
  cum_series :: "CumYearPoint list"
  chartSeries :: "CumYearPoint list"
  cumUsdAtT :: real
  cumBtcAtT :: real
  cum_lifespanInflationFactor :: real
  minPositiveUsd :: real
  minPositiveBtc :: real

definition cum_projection ::
    "real \<Rightarrow> real \<Rightarrow> nat \<Rightarrow> real \<Rightarrow> real \<Rightarrow> ScaleMode \<Rightarrow> cum_result" where
  "cum_projection inflationPercent assetGrowthPercent extraYears annualExpenseToday
      effectivePrice scaleMode =
    (let i = inflationPercent / 100;
         a = assetGrowthPercent / 100;
         lif = ratioBase i a ^ extraYears - 1;
         s = cum_loop i a annualExpenseToday effectivePrice extraYears 0
               \<lparr>cum_points = [], runningUsdTotal = 0, runningBtcTotal = 0\<rparr>;
         pts = cum_points s;
         trimmedPoints = (if scaleMode = Log then filter (\<lambda>point. cum_year point > 0) pts
                          else pts);
         usdPositives = filter (\<lambda>v. v > 0) (map cumUsd trimmedPoints);
         btcPositives = filter (\<lambda>v. v > 0) (map cumBtc trimmedPoints)
     in \<lparr>cum_series = pts,
         chartSeries = trimmedPoints,
         cumUsdAtT = (if pts = [] then 0 else cumUsd (last pts)),
         cumBtcAtT = (if pts = [] then 0 else cumBtc (last pts)),
         cum_lifespanInflationFactor = lif,
         minPositiveUsd = minPositive usdPositives 1,
         minPositiveBtc = minPositive btcPositives (1 / 10 ^ 6)\<rparr>)"

subsection \<open>The state after the loop\<close>

text \<open>The state the portfolio loop ends in, for a horizon of \<open>extraYears\<close> periods.\<close>

definition final_state :: "real \<Rightarrow> real \<Rightarrow> real \<Rightarrow> real \<Rightarrow> nat \<Rightarrow> loop_state" where
  "final_state i a annualExpenseToday startingPortfolio extraYears =
    loop i a annualExpenseToday extraYears 0 (init_state startingPortfolio)"

definition cum_final_state :: "real \<Rightarrow> real \<Rightarrow> real \<Rightarrow> real \<Rightarrow> nat \<Rightarrow> cum_loop_state" where
  "cum_final_state i a annualExpenseToday effectivePrice extraYears =
    cum_loop i a annualExpenseToday effectivePrice extraYears 0
      \<lparr>cum_points = [], runningUsdTotal = 0, runningBtcTotal = 0\<rparr>"

section \<open>The loop as a fold over the periods\<close>

lemma loop_fold:
  "loop i a e T k s = fold (loop_body i a e) [k..<Suc T] s"
proof (induction i a e T k s rule: loop.induct)
  case (1 i a e T k s)
  show ?case
  proof (cases "k \<le> T")
    case True
    then have "[k..<Suc T] = k # [Suc k..<Suc T]"
      by (simp add: upt_rec)
    with True "1.IH" show ?thesis
      by (simp add: loop.simps [of i a e T k s])
  next
    case False
    then show ?thesis
      by (simp add: loop.simps [of i a e T k s])
  qed
qed

section \<open>Invariants of the portfolio loop\<close>

lemma final_state_0:
  "final_state i a e P 0 = loop_body i a e 0 (init_state P)"
  by (simp add: final_state_def loop_fold)

lemma final_state_Suc:
  "final_state i a e P (Suc T) = loop_body i a e (Suc T) (final_state i a e P T)"
  by (simp add: final_state_def loop_fold)

lemma portfolioUsd_0: "portfolioUsd (final_state i a e P 0) = P"
  by (simp add: final_state_0 loop_body_def init_state_def Let_def)

lemma portfolioUsd_Suc:
  "portfolioUsd (final_state i a e P (Suc k)) =
     portfolioUsd (final_state i a e P k) * (1 + a) - e * (1 + i) ^ Suc k"
  by (simp add: final_state_Suc loop_body_def Let_def)

lemma points_0:
  "points (final_state i a e P 0) =
     [\<lparr>year = 0, ratio = 1, E_nom_usd = e, P_usd = P, E_btc = e, P_btc = P\<rparr>]"
  by (simp add: final_state_0 loop_body_def init_state_def Let_def)

lemma points_Suc:
  "points (final_state i a e P (Suc T)) =
     points (final_state i a e P T) @
       [\<lparr>year = Suc T, ratio = ratioBase i a ^ Suc T, E_nom_usd = e * (1 + i) ^ Suc T,
         P_usd = portfolioUsd (final_state i a e P (Suc T)),
         E_btc = e * (1 + i) ^ Suc T / (1 + a) ^ Suc T,
         P_btc = portfolioUsd (final_state i a e P (Suc T)) / (1 + a) ^ Suc T\<rparr>]"
  by (simp add: final_state_Suc loop_body_def Let_def)

lemma length_points: "length (points (final_state i a e P T)) = Suc T"
  by (induction T) (simp_all add: points_0 points_Suc)

lemma points_nth:
  "k \<le> T \<Longrightarrow> points (final_state i a e P T) ! k =
     \<lparr>year = k, ratio = ratioBase i a ^ k, E_nom_usd = e * (1 + i) ^ k,
       P_usd = portfolioUsd (final_state i a e P k),
       E_btc = e * (1 + i) ^ k / (1 + a) ^ k,
       P_btc = portfolioUsd (final_state i a e P k) / (1 + a) ^ k\<rparr>"
proof (induction T)
  case 0
  then show ?case by (simp add: points_0 portfolioUsd_0)
next
  case (Suc T)
  show ?case
  proof (cases "k = Suc T")
    case True
    then show ?thesis
      by (simp add: points_Suc nth_append length_points)
  next
    case False
    with Suc.prems have "k \<le> T" by simp
    with Suc.IH show ?thesis
      by (simp add: points_Suc nth_append length_points)
  qed
qed

lemma years_points: "map year (points (final_state i a e P T)) = [0..<Suc T]"
  by (induction T) (simp_all add: points_0 points_Suc)

lemma usd_total:
  "runningUsdExpensesTotal (final_state i a e P T) = (\<Sum>k = 1..T. e * (1 + i) ^ k)"
proof (induction T)
  case 0
  show ?case by (simp add: final_state_0 loop_body_def init_state_def Let_def)
next
  case (Suc T)
  then show ?case by (simp add: final_state_Suc loop_body_def Let_def)
qed

lemma btc_total:
  "runningBtcExpensesTotal (final_state i a e P T) =
     (\<Sum>k = 1..T. e * (1 + i) ^ k / (1 + a) ^ k)"
proof (induction T)
  case 0
  show ?case by (simp add: final_state_0 loop_body_def init_state_def Let_def)
next
  case (Suc T)
  then show ?case by (simp add: final_state_Suc loop_body_def Let_def)
qed

lemma depletion_0: "depletion (final_state i a e P 0) = None"
  by (simp add: final_state_0 loop_body_def init_state_def Let_def)

lemma depletion_Suc:
  "depletion (final_state i a e P (Suc T)) =
     (if depletion (final_state i a e P T) = None \<and>
         portfolioUsd (final_state i a e P (Suc T)) \<le> 0
      then Some (Suc T) else depletion (final_state i a e P T))"
  by (simp add: final_state_Suc loop_body_def Let_def)

lemma depletion_inv:
  "(depletion (final_state i a e P T) = None \<and>
      (\<forall>j. 1 \<le> j \<and> j \<le> T \<longrightarrow> 0 < portfolioUsd (final_state i a e P j))) \<or>
   (\<exists>d. depletion (final_state i a e P T) = Some d \<and> 1 \<le> d \<and> d \<le> T \<and>
      portfolioUsd (final_state i a e P d) \<le> 0 \<and>
      (\<forall>j. 1 \<le> j \<and> j < d \<longrightarrow> 0 < portfolioUsd (final_state i a e P j)))"
proof (induction T)
  case 0
  show ?case by (simp add: depletion_0)
next
  case (Suc T)
  let ?bal = "\<lambda>j. portfolioUsd (final_state i a e P j)"
  from Suc.IH show ?case
  proof (elim disjE conjE exE)
    assume none: "depletion (final_state i a e P T) = None"
      and pos: "\<forall>j. 1 \<le> j \<and> j \<le> T \<longrightarrow> 0 < ?bal j"
    show ?thesis
    proof (cases "?bal (Suc T) \<le> 0")
      case True
      with none have "depletion (final_state i a e P (Suc T)) = Some (Suc T)"
        by (simp add: depletion_Suc)
      moreover from pos have "\<forall>j. 1 \<le> j \<and> j < Suc T \<longrightarrow> 0 < ?bal j"
        by (simp add: less_Suc_eq_le)
      ultimately show ?thesis using True by simp
    next
      case False
      with none have "depletion (final_state i a e P (Suc T)) = None"
        by (simp add: depletion_Suc)
      moreover from pos False have "\<forall>j. 1 \<le> j \<and> j \<le> Suc T \<longrightarrow> 0 < ?bal j"
        by (auto simp: le_Suc_eq)
      ultimately show ?thesis by simp
    qed
  next
    fix d
    assume some: "depletion (final_state i a e P T) = Some d"
      and d: "1 \<le> d" "d \<le> T" "?bal d \<le> 0"
      and pos: "\<forall>j. 1 \<le> j \<and> j < d \<longrightarrow> 0 < ?bal j"
    from some have "depletion (final_state i a e P (Suc T)) = Some d"
      by (simp add: depletion_Suc)
    with d pos show ?thesis by auto
  qed
qed

lemma depletion_Some_iff:
  "depletion (final_state i a e P T) = Some d \<longleftrightarrow>
     1 \<le> d \<and> d \<le> T \<and> portfolioUsd (final_state i a e P d) \<le> 0 \<and>
     (\<forall>j. 1 \<le> j \<and> j < d \<longrightarrow> 0 < portfolioUsd (final_state i a e P j))"
  (is "?L \<longleftrightarrow> ?R")
proof
  assume ?L
  with depletion_inv [of i a e P T] show ?R by auto
next
  assume r: ?R
  let ?bal = "\<lambda>j. portfolioUsd (final_state i a e P j)"
  from depletion_inv [of i a e P T] show ?L
  proof (elim disjE conjE exE)
    assume "\<forall>j. 1 \<le> j \<and> j \<le> T \<longrightarrow> 0 < ?bal j"
    with r have "0 < ?bal d" by blast
    with r show ?thesis by simp
  next
    fix d'
    assume some: "depletion (final_state i a e P T) = Some d'"
      and d': "1 \<le> d'" "?bal d' \<le> 0"
      and pos: "\<forall>j. 1 \<le> j \<and> j < d' \<longrightarrow> 0 < ?bal j"
    have "\<not> d < d'"
    proof
      assume "d < d'"
      with pos r have "0 < ?bal d" by blast
      with r show False by simp
    qed
    moreover have "\<not> d' < d"
    proof
      assume "d' < d"
      with r d' have "0 < ?bal d'" by blast
      with d' show False by simp
    qed
    ultimately have "d' = d" by simp
    with some show ?thesis by simp
  qed
qed

lemma depletion_None_iff:
  "depletion (final_state i a e P T) = None \<longleftrightarrow>
     (\<forall>j. 1 \<le> j \<and> j \<le> T \<longrightarrow> 0 < portfolioUsd (final_state i a e P j))"
  (is "?L \<longleftrightarrow> ?R")
proof
  assume ?L
  with depletion_inv [of i a e P T] show ?R by auto
next
  assume r: ?R
  show ?L
  proof (cases "depletion (final_state i a e P T)")
    case None
    then show ?thesis .
  next
    case (Some d)
    then have "1 \<le> d \<and> d \<le> T \<and> portfolioUsd (final_state i a e P d) \<le> 0"
      by (simp add: depletion_Some_iff)
    with r have False by (auto simp: not_less [symmetric] simp del: not_less)
    then show ?thesis ..
  qed
qed

section \<open>The projection in terms of the loop state\<close>

lemma series_projection:
  "series (projection ip ap T e P) = points (final_state (ip / 100) (ap / 100) e P T)"
  by (simp add: projection_def final_state_def Let_def)

lemma lif_projection:
  "lifespanInflationFactor (projection ip ap T e P) = ratioBase (ip / 100) (ap / 100) ^ T - 1"
  by (simp add: projection_def Let_def)

lemma depletionYear_projection:
  "depletionYear (projection ip ap T e P) = depletion (final_state (ip / 100) (ap / 100) e P T)"
  by (simp add: projection_def final_state_def Let_def)

lemma totals_projection:
  "totalExpensesUsd (projection ip ap T e P) =
     runningUsdExpensesTotal (final_state (ip / 100) (ap / 100) e P T)"
  "totalExpensesBtc (projection ip ap T e P) =
     runningBtcExpensesTotal (final_state (ip / 100) (ap / 100) e P T)"
  by (simp_all add: projection_def final_state_def Let_def)

lemma series_nth:
  "k \<le> T \<Longrightarrow> series (projection ip ap T e P) ! k =
     \<lparr>year = k, ratio = ratioBase (ip / 100) (ap / 100) ^ k,
       E_nom_usd = e * (1 + ip / 100) ^ k,
       P_usd = portfolioUsd (final_state (ip / 100) (ap / 100) e P k),
       E_btc = e * (1 + ip / 100) ^ k / (1 + ap / 100) ^ k,
       P_btc = portfolioUsd (final_state (ip / 100) (ap / 100) e P k) / (1 + ap / 100) ^ k\<rparr>"
  by (simp add: series_projection points_nth)

lemma P_usd_series:
  "k \<le> T \<Longrightarrow> P_usd (series (projection ip ap T e P) ! k) =
     portfolioUsd (final_state (ip / 100) (ap / 100) e P k)"
  by (simp add: series_nth)

lemma final_point_projection:
  "finalRatio (projection ip ap T e P) = ratio (series (projection ip ap T e P) ! T)"
  "finalAnnualExpenseUsd (projection ip ap T e P) = E_nom_usd (series (projection ip ap T e P) ! T)"
proof -
  let ?pts = "points (final_state (ip / 100) (ap / 100) e P T)"
  have len: "length ?pts = Suc T" by (rule length_points)
  then have ne: "?pts \<noteq> []" by auto
  then have "last ?pts = ?pts ! T" using len by (simp add: last_conv_nth)
  with ne show "finalRatio (projection ip ap T e P) = ratio (series (projection ip ap T e P) ! T)"
    "finalAnnualExpenseUsd (projection ip ap T e P) = E_nom_usd (series (projection ip ap T e P) ! T)"
    by (simp_all add: projection_def final_state_def Let_def)
qed

lemma depletion_kept:
  assumes "depletion (final_state i a e P T) = Some d" and "T \<le> T'"
  shows "depletion (final_state i a e P T') = Some d"
  using assms by (simp add: depletion_Some_iff)

lemma ratio_series:
  "k \<le> T \<Longrightarrow> ratio (series (projection ip ap T e P) ! k) = ratioBase (ip / 100) (ap / 100) ^ k"
  by (simp add: series_nth)

lemma finalAnnualExpenseUsd_closed:
  "finalAnnualExpenseUsd (projection ip ap T e P) = e * (1 + ip / 100) ^ T"
  by (simp add: final_point_projection series_nth)

lemma lifespanInflationPercent_projection:
  "lifespanInflationPercent (projection ip ap T e P) =
     lifespanInflationFactor (projection ip ap T e P) * 100"
  by (simp add: projection_def Let_def)

lemma ratio_monotone_reals:
  "(- 1 < ap / 100 \<and> ap / 100 < ip / 100 \<longrightarrow>
      (\<forall>j k. j < k \<and> k \<le> T \<longrightarrow>
         ratio (series (projection ip ap T e P) ! j) < ratio (series (projection ip ap T e P) ! k))) \<and>
   (- 1 < ip / 100 \<and> ip / 100 < ap / 100 \<longrightarrow>
      (\<forall>j k. j < k \<and> k \<le> T \<longrightarrow>
         ratio (series (projection ip ap T e P) ! k) < ratio (series (projection ip ap T e P) ! j))) \<and>
   (ap / 100 \<noteq> - 1 \<and> ip / 100 = ap / 100 \<longrightarrow>
      (\<forall>k. k \<le> T \<longrightarrow> ratio (series (projection ip ap T e P) ! k) = 1))"
proof (intro conjI impI allI)
  fix j k
  assume rates: "- 1 < ap / 100 \<and> ap / 100 < ip / 100" and jk: "j < k \<and> k \<le> T"
  from rates have "1 < ratioBase (ip / 100) (ap / 100)"
    by (simp add: ratioBase_def)
  with jk have "ratioBase (ip / 100) (ap / 100) ^ j < ratioBase (ip / 100) (ap / 100) ^ k"
    by (simp add: power_strict_increasing)
  with jk show "ratio (series (projection ip ap T e P) ! j) <
      ratio (series (projection ip ap T e P) ! k)"
    by (simp add: ratio_series)
next
  fix j k
  assume rates: "- 1 < ip / 100 \<and> ip / 100 < ap / 100" and jk: "j < k \<and> k \<le> T"
  from rates have "0 < ratioBase (ip / 100) (ap / 100)" "ratioBase (ip / 100) (ap / 100) < 1"
    by (simp_all add: ratioBase_def)
  with jk have "ratioBase (ip / 100) (ap / 100) ^ k < ratioBase (ip / 100) (ap / 100) ^ j"
    by (simp add: power_strict_decreasing)
  with jk show "ratio (series (projection ip ap T e P) ! k) <
      ratio (series (projection ip ap T e P) ! j)"
    by (simp add: ratio_series)
next
  fix k
  assume rates: "ap / 100 \<noteq> - 1 \<and> ip / 100 = ap / 100" and k: "k \<le> T"
  from rates have "1 + ap / 100 \<noteq> 0" by linarith
  with rates have "ratioBase (ip / 100) (ap / 100) = 1"
    by (simp add: ratioBase_def)
  with k show "ratio (series (projection ip ap T e P) ! k) = 1"
    by (simp add: ratio_series)
qed

section \<open>The claims about the portfolio variant\<close>

text \<open>
  C1. With \<open>i = inflationPercent / 100\<close> and \<open>a = assetGrowthPercent / 100\<close>, \<open>a \<noteq> -1\<close>,
  and any horizon \<open>T\<close>, the Lifespan Inflation Factor of the projection is
  \<open>((1 + i) / (1 + a)) ^ T - 1\<close>, and it is the \<open>ratio\<close> field of the series point at
  \<open>k = T\<close> (which is also the reported final ratio) minus one.
\<close>

theorem C1_lif_closed_form:
  assumes "ap / 100 \<noteq> - 1"
  shows "lifespanInflationFactor (projection ip ap T e P) =
           ((1 + ip / 100) / (1 + ap / 100)) ^ T - 1 \<and>
         lifespanInflationFactor (projection ip ap T e P) =
           ratio (series (projection ip ap T e P) ! T) - 1 \<and>
         ratio (series (projection ip ap T e P) ! T) = ((1 + ip / 100) / (1 + ap / 100)) ^ T \<and>
         finalRatio (projection ip ap T e P) = ratio (series (projection ip ap T e P) ! T)"
  by (simp add: lif_projection series_nth ratioBase_def final_point_projection)

theorem C1_lif_closed_form_witness:
  "(7::real) / 100 \<noteq> - 1 \<and>
   lifespanInflationFactor (projection 3 7 2 60000 1000000) = (103 / 107) ^ 2 - 1 \<and>
   ratio (series (projection 3 7 2 60000 1000000) ! 2) = 10609 / 11449"
  using C1_lif_closed_form [of 7 3 2 60000 1000000] by (simp add: power2_eq_square)

text \<open>
  C2. For every horizon \<open>T\<close> the series has \<open>T + 1\<close> points whose period indices are
  \<open>0, 1, ..., T\<close> in this order; the first point has ratio \<open>1\<close> and nominal expense
  \<open>E0\<close>.
\<close>

theorem C2_series_shape:
  "length (series (projection ip ap T e P)) = T + 1 \<and>
   map year (series (projection ip ap T e P)) = [0..<T + 1] \<and>
   ratio (series (projection ip ap T e P) ! 0) = 1 \<and>
   E_nom_usd (series (projection ip ap T e P) ! 0) = e"
  by (simp add: series_projection length_points years_points points_nth)

text \<open>
  C3. For \<open>1 \<le> k \<le> T\<close> the balance of the series satisfies
  \<open>balance(k) = balance(k - 1) * (1 + a) - nominalExpense(k)\<close>, with \<open>balance(0) = P0\<close>
  and \<open>nominalExpense(k) = E0 * (1 + i) ^ k\<close>.
\<close>

theorem C3_balance_recurrence:
  assumes "1 \<le> k" and "k \<le> T"
  shows "P_usd (series (projection ip ap T e P) ! k) =
           P_usd (series (projection ip ap T e P) ! (k - 1)) * (1 + ap / 100) -
           E_nom_usd (series (projection ip ap T e P) ! k) \<and>
         P_usd (series (projection ip ap T e P) ! 0) = P \<and>
         E_nom_usd (series (projection ip ap T e P) ! k) = e * (1 + ip / 100) ^ k"
proof -
  from assms obtain j where k: "k = Suc j" by (cases k) auto
  with assms have "j \<le> T" by simp
  with assms k show ?thesis
    by (simp add: series_nth portfolioUsd_Suc portfolioUsd_0)
qed


theorem C3_balance_recurrence_witness:
  "(1::nat) \<le> 2 \<and> (2::nat) \<le> 2 \<and>
   P_usd (series (projection 10 20 2 100 1000) ! 2) =
     P_usd (series (projection 10 20 2 100 1000) ! (2 - 1)) * (1 + 20 / 100) - 121 \<and>
   P_usd (series (projection 10 20 2 100 1000) ! 0) = 1000 \<and>
   E_nom_usd (series (projection 10 20 2 100 1000) ! 2) = 121"
  using C3_balance_recurrence [of 2 2 10 20 100 1000] by (simp add: power2_eq_square)

text \<open>
  C4. The depletion year is \<open>d\<close> exactly when \<open>d\<close> is the first period in \<open>1..T\<close> whose
  balance is at most zero; it is \<open>None\<close> (not depleted) exactly when the balance is
  positive on all of \<open>1..T\<close>; once recorded it is not overwritten by later periods (a
  longer horizon reports the same year); and with \<open>P0 = 100\<close>, \<open>E0 = 50\<close>, \<open>a = 0\<close>,
  \<open>i = 0\<close> over two periods the balances are \<open>100, 50, 0\<close> and the depletion year is 2.
\<close>

theorem C4_depletion_year:
  "(depletionYear (projection ip ap T e P) = Some d \<longleftrightarrow>
      1 \<le> d \<and> d \<le> T \<and> P_usd (series (projection ip ap T e P) ! d) \<le> 0 \<and>
      (\<forall>j. 1 \<le> j \<and> j < d \<longrightarrow> 0 < P_usd (series (projection ip ap T e P) ! j))) \<and>
   (depletionYear (projection ip ap T e P) = None \<longleftrightarrow>
      (\<forall>j. 1 \<le> j \<and> j \<le> T \<longrightarrow> 0 < P_usd (series (projection ip ap T e P) ! j))) \<and>
   (depletionYear (projection ip ap T e P) = Some d \<and> T \<le> T' \<longrightarrow>
      depletionYear (projection ip ap T' e P) = Some d) \<and>
   map P_usd (series (projection 0 0 2 50 100)) = [100, 50, 0] \<and>
   depletionYear (projection 0 0 2 50 100) = Some 2"
proof (intro conjI)
  let ?bal = "\<lambda>j. portfolioUsd (final_state (ip / 100) (ap / 100) e P j)"
  have bal: "P_usd (series (projection ip ap T e P) ! j) = ?bal j" if "j \<le> T" for j
    using that by (rule P_usd_series)
  show "depletionYear (projection ip ap T e P) = Some d \<longleftrightarrow>
      1 \<le> d \<and> d \<le> T \<and> P_usd (series (projection ip ap T e P) ! d) \<le> 0 \<and>
      (\<forall>j. 1 \<le> j \<and> j < d \<longrightarrow> 0 < P_usd (series (projection ip ap T e P) ! j))"
    by (simp add: depletionYear_projection depletion_Some_iff bal cong: conj_cong)
  show "depletionYear (projection ip ap T e P) = None \<longleftrightarrow>
      (\<forall>j. 1 \<le> j \<and> j \<le> T \<longrightarrow> 0 < P_usd (series (projection ip ap T e P) ! j))"
    by (simp add: depletionYear_projection depletion_None_iff bal)
  show "depletionYear (projection ip ap T e P) = Some d \<and> T \<le> T' \<longrightarrow>
      depletionYear (projection ip ap T' e P) = Some d"
    by (auto simp: depletionYear_projection intro: depletion_kept)
  have two: "(2::nat) = Suc (Suc 0)" by simp
  show "map P_usd (series (projection 0 0 2 50 100)) = [100, 50, 0]"
    by (simp add: series_projection two points_Suc points_0 portfolioUsd_Suc portfolioUsd_0)
  show "depletionYear (projection 0 0 2 50 100) = Some 2"
    by (simp add: depletionYear_projection two depletion_Suc depletion_0
        portfolioUsd_Suc portfolioUsd_0)
qed

theorem C4_depletion_year_witness:
  "(1::nat) \<le> 1 \<and> (1::nat) \<le> 3 \<and>
   P_usd (series (projection 0 0 3 60 50) ! 1) \<le> 0 \<and>
   depletionYear (projection 0 0 3 60 50) = Some 1 \<and>
   depletionYear (projection 0 0 3 60 50) \<noteq> None"
proof -
  have three: "(3::nat) = Suc (Suc (Suc 0))" by simp
  have bal1: "P_usd (series (projection 0 0 3 60 50) ! 1) = - 10"
    by (simp add: series_projection three points_Suc points_0 portfolioUsd_Suc
        portfolioUsd_0 nth_append length_points)
  have "depletionYear (projection 0 0 3 60 50) = Some 1"
    using C4_depletion_year [of 0 0 3 60 50 1 3] bal1 by simp
  with bal1 show ?thesis by simp
qed

text \<open>
  C5. The two rates come from range sliders only: \<open>inflationPercent\<close> is a multiple
  \<open>m / 10\<close> of the step \<open>0.1\<close> between \<open>0\<close> and \<open>20\<close>, and \<open>assetGrowthPercent\<close> a multiple
  \<open>z / 10\<close> between \<open>-10\<close> and \<open>30\<close>. For every such pair, with \<open>i\<close> and \<open>a\<close> the
  percentages over 100: if \<open>i > a\<close> the ratio of the series is strictly increasing in \<open>k\<close>
  over \<open>0..T\<close>, if \<open>i < a\<close> it is strictly decreasing, and if \<open>i = a\<close> it is \<open>1\<close> for all
  \<open>k\<close> in \<open>0..T\<close>.
\<close>

theorem C5_ratio_monotone:
  assumes "m \<le> 200" and "- 100 \<le> z" and "z \<le> 300"
  shows
    "(real_of_int z / 10 / 100 < real m / 10 / 100 \<longrightarrow>
        (\<forall>j k. j < k \<and> k \<le> T \<longrightarrow>
           ratio (series (projection (real m / 10) (real_of_int z / 10) T e P) ! j) <
           ratio (series (projection (real m / 10) (real_of_int z / 10) T e P) ! k))) \<and>
     (real m / 10 / 100 < real_of_int z / 10 / 100 \<longrightarrow>
        (\<forall>j k. j < k \<and> k \<le> T \<longrightarrow>
           ratio (series (projection (real m / 10) (real_of_int z / 10) T e P) ! k) <
           ratio (series (projection (real m / 10) (real_of_int z / 10) T e P) ! j))) \<and>
     (real m / 10 / 100 = real_of_int z / 10 / 100 \<longrightarrow>
        (\<forall>k. k \<le> T \<longrightarrow>
           ratio (series (projection (real m / 10) (real_of_int z / 10) T e P) ! k) = 1))"
proof -
  from assms have a: "- 1 < real_of_int z / 10 / 100" by simp
  have i: "- 1 < real m / 10 / 100"
  proof -
    have "(0::real) \<le> real m / 10 / 100" by simp
    then show ?thesis by linarith
  qed
  from a have a': "real_of_int z / 10 / 100 \<noteq> - 1" by simp
  from ratio_monotone_reals [of "real_of_int z / 10" "real m / 10" T e P] a i a'
  show ?thesis by blast
qed

theorem C5_ratio_monotone_witness:
  "(70::nat) \<le> 200 \<and> (- 100 :: int) \<le> 30 \<and> (30::int) \<le> 300 \<and>
   ratio (series (projection 7 3 2 60000 1000000) ! 1) <
     ratio (series (projection 7 3 2 60000 1000000) ! 2) \<and>
   ratio (series (projection 3 7 2 60000 1000000) ! 2) <
     ratio (series (projection 3 7 2 60000 1000000) ! 1) \<and>
   ratio (series (projection 7 7 2 60000 1000000) ! 2) = 1"
  using C5_ratio_monotone [of 70 30 2 60000 1000000]
    C5_ratio_monotone [of 30 70 2 60000 1000000]
    C5_ratio_monotone [of 70 70 2 60000 1000000]
  by simp

text \<open>
  C6. The running totals take no flow from period 0: the total of the nominal expenses is
  the sum of \<open>nominalExpense(k)\<close> over \<open>k = 1..T\<close>, the asset-denominated total is the sum
  of the asset-denominated expenses of the same periods, and both are \<open>0\<close> when \<open>T = 0\<close>.
\<close>

theorem C6_totals:
  "totalExpensesUsd (projection ip ap T e P) =
     (\<Sum>k = 1..T. E_nom_usd (series (projection ip ap T e P) ! k)) \<and>
   totalExpensesUsd (projection ip ap T e P) = (\<Sum>k = 1..T. e * (1 + ip / 100) ^ k) \<and>
   totalExpensesBtc (projection ip ap T e P) =
     (\<Sum>k = 1..T. E_btc (series (projection ip ap T e P) ! k)) \<and>
   totalExpensesUsd (projection ip ap 0 e P) = 0 \<and>
   totalExpensesBtc (projection ip ap 0 e P) = 0"
  by (simp add: totals_projection usd_total btc_total series_nth)

text \<open>
  C7. For \<open>T > 0\<close> each average is the finite number obtained by dividing its running
  total by \<open>T\<close>; for \<open>T = 0\<close> each average is \<open>0\<close>; and for every horizon the averages are
  finite, so neither is the \<open>NaN\<close> or infinity that a division by zero yields.
\<close>

theorem C7_averages:
  "(0 < T \<longrightarrow>
      avgAnnualExpenseUsd (projection ip ap T e P) =
        Finite (totalExpensesUsd (projection ip ap T e P) / real T) \<and>
      avgAnnualExpenseBtc (projection ip ap T e P) =
        Finite (totalExpensesBtc (projection ip ap T e P) / real T)) \<and>
   avgAnnualExpenseUsd (projection ip ap 0 e P) = Finite 0 \<and>
   avgAnnualExpenseBtc (projection ip ap 0 e P) = Finite 0 \<and>
   isFinite (avgAnnualExpenseUsd (projection ip ap T e P)) \<and>
   isFinite (avgAnnualExpenseBtc (projection ip ap T e P))"
proof (cases "0 < T")
  case True
  then have "real T \<noteq> 0" by simp
  then have div: "js_div x (real T) = Finite (x / real T)" for x
    by (simp add: js_div_def)
  from True show ?thesis
    by (simp add: projection_def Let_def div)
next
  case False
  then show ?thesis
    by (simp add: projection_def Let_def)
qed

theorem C7_averages_witness:
  "(0::nat) < 2 \<and>
   totalExpensesUsd (projection 0 0 2 50 100) = 100 \<and>
   avgAnnualExpenseUsd (projection 0 0 2 50 100) = Finite 50 \<and>
   avgAnnualExpenseBtc (projection 0 0 2 50 100) = Finite 50"
proof -
  have two: "(2::nat) = Suc (Suc 0)" by simp
  have "totalExpensesUsd (projection 0 0 2 50 100) = 100"
    "totalExpensesBtc (projection 0 0 2 50 100) = 100"
    by (simp_all add: totals_projection usd_total btc_total two)
  with C7_averages [of 2 0 0 50 100] show ?thesis by simp
qed

text \<open>
  C8. For \<open>i = 0.03\<close>, \<open>a = 0.07\<close>, \<open>T = 10\<close>, \<open>E0 = 60000\<close> the code's factor is above
  \<open>-0.3169\<close>, so it is not \<open>-0.322\<close> to three decimals, and the final nominal expense is
  below \<open>80634.99\<close>, so it is not \<open>80635.33\<close> to the cent.
\<close>

theorem C8_counterexample:
  "- (3169 / 10000) < lifespanInflationFactor (projection 3 7 10 60000 1000000) \<and>
   \<not> \<bar>lifespanInflationFactor (projection 3 7 10 60000 1000000) - (- (322 / 1000))\<bar> \<le> 5 / 10000 \<and>
   finalAnnualExpenseUsd (projection 3 7 10 60000 1000000) < 8063499 / 100 \<and>
   \<not> \<bar>finalAnnualExpenseUsd (projection 3 7 10 60000 1000000) - 8063533 / 100\<bar> \<le> 5 / 1000"
  by (simp add: lif_projection finalAnnualExpenseUsd_closed ratioBase_def power_divide abs_if)

text \<open>
  C8, amended. For the same inputs \<open>ratioBase\<close> is \<open>0.9626\<close> to four decimals, the
  Lifespan Inflation Factor is \<open>-0.3168\<close> to four decimals (about \<open>-32\<close> percent), and the
  final nominal expense is \<open>60000 * 1.03 ^ 10\<close>, which is \<open>80634.98\<close> to the cent.
\<close>

theorem C8_example_values:
  "\<bar>ratioBase (3 / 100) (7 / 100) - 9626 / 10000\<bar> \<le> 5 / 100000 \<and>
   \<bar>lifespanInflationFactor (projection 3 7 10 60000 1000000) - (- (3168 / 10000))\<bar> \<le> 5 / 100000 \<and>
   \<bar>lifespanInflationPercent (projection 3 7 10 60000 1000000) - (- 32)\<bar> \<le> 1 / 2 \<and>
   finalAnnualExpenseUsd (projection 3 7 10 60000 1000000) = 60000 * (103 / 100) ^ 10 \<and>
   \<bar>finalAnnualExpenseUsd (projection 3 7 10 60000 1000000) - 8063498 / 100\<bar> \<le> 5 / 1000"
  by (simp add: lif_projection finalAnnualExpenseUsd_closed ratioBase_def power_divide abs_if
      lifespanInflationPercent_projection)

section \<open>Invariants of the cumulative-cost loop\<close>

lemma cum_loop_fold:
  "cum_loop i a e p T k s = fold (cum_loop_body i a e p) [k..<Suc T] s"
proof (induction i a e p T k s rule: cum_loop.induct)
  case (1 i a e p T k s)
  show ?case
  proof (cases "k \<le> T")
    case True
    then have "[k..<Suc T] = k # [Suc k..<Suc T]"
      by (simp add: upt_rec)
    with True "1.IH" show ?thesis
      by (simp add: cum_loop.simps [of i a e p T k s])
  next
    case False
    then show ?thesis
      by (simp add: cum_loop.simps [of i a e p T k s])
  qed
qed

lemma cum_final_state_0:
  "cum_final_state i a e p 0 =
     \<lparr>cum_points = [\<lparr>cum_year = 0, cumUsd = 0, cumBtc = 0\<rparr>],
      runningUsdTotal = 0, runningBtcTotal = 0\<rparr>"
  by (simp add: cum_final_state_def cum_loop_fold cum_loop_body_def Let_def)

lemma cum_final_state_Suc:
  "cum_final_state i a e p (Suc T) = cum_loop_body i a e p (Suc T) (cum_final_state i a e p T)"
  by (simp add: cum_final_state_def cum_loop_fold)

lemma cum_points_Suc:
  "\<exists>pt. cum_year pt = Suc T \<and>
     cum_points (cum_final_state i a e p (Suc T)) = cum_points (cum_final_state i a e p T) @ [pt]"
  by (simp add: cum_final_state_Suc cum_loop_body_def Let_def)

lemma cum_points_shape:
  "\<exists>rest. cum_points (cum_final_state i a e p T) = \<lparr>cum_year = 0, cumUsd = 0, cumBtc = 0\<rparr> # rest \<and>
     map cum_year rest = [1..<Suc T]"
proof (induction T)
  case 0
  show ?case by (simp add: cum_final_state_0)
next
  case (Suc T)
  then obtain rest where rest:
    "cum_points (cum_final_state i a e p T) = \<lparr>cum_year = 0, cumUsd = 0, cumBtc = 0\<rparr> # rest"
    "map cum_year rest = [1..<Suc T]" by blast
  from cum_points_Suc [of T i a e p] obtain pt where pt: "cum_year pt = Suc T"
    "cum_points (cum_final_state i a e p (Suc T)) = cum_points (cum_final_state i a e p T) @ [pt]"
    by blast
  from rest pt have
    "cum_points (cum_final_state i a e p (Suc T)) =
       \<lparr>cum_year = 0, cumUsd = 0, cumBtc = 0\<rparr> # (rest @ [pt])"
    "map cum_year (rest @ [pt]) = [1..<Suc (Suc T)]"
    by simp_all
  then show ?case by blast
qed

lemma filter_positive_years:
  assumes "map cum_year rest = [1..<Suc T]"
  shows "filter (\<lambda>point. cum_year point > 0) rest = rest"
proof -
  have "cum_year pt > 0" if "pt \<in> set rest" for pt
  proof -
    from that have "cum_year pt \<in> set (map cum_year rest)" by simp
    with assms have "cum_year pt \<in> set [1..<Suc T]" by (simp only:)
    then show ?thesis by (simp del: upt_Suc)
  qed
  then show ?thesis by (simp add: filter_id_conv)
qed

lemma cum_series_projection:
  "cum_series (cum_projection ip ap T e p m) =
     cum_points (cum_final_state (ip / 100) (ap / 100) e p T)"
  by (simp add: cum_projection_def cum_final_state_def Let_def)

lemma chartSeries_Linear:
  "chartSeries (cum_projection ip ap T e p Linear) = cum_series (cum_projection ip ap T e p Linear)"
  by (simp add: cum_projection_def Let_def)

lemma chartSeries_Log:
  "chartSeries (cum_projection ip ap T e p Log) = tl (cum_series (cum_projection ip ap T e p Log))"
proof -
  from cum_points_shape [of "ip / 100" "ap / 100" e p T] obtain rest where rest:
    "cum_points (cum_final_state (ip / 100) (ap / 100) e p T) =
       \<lparr>cum_year = 0, cumUsd = 0, cumBtc = 0\<rparr> # rest"
    "map cum_year rest = [1..<Suc T]" by blast
  then show ?thesis
    by (simp add: cum_projection_def Let_def cum_final_state_def [symmetric]
        filter_positive_years)
qed

lemma length_cum_series: "length (cum_series (cum_projection ip ap T e p m)) = T + 1"
proof -
  from cum_points_shape [of "ip / 100" "ap / 100" e p T] obtain rest where rest:
    "cum_points (cum_final_state (ip / 100) (ap / 100) e p T) =
       \<lparr>cum_year = 0, cumUsd = 0, cumBtc = 0\<rparr> # rest"
    "map cum_year rest = [1..<Suc T]" by blast
  from rest(2) have "length (map cum_year rest) = T" by simp
  then have "length rest = T" by simp
  with rest(1) show ?thesis by (simp add: cum_series_projection)
qed

lemma years_cum_series: "map cum_year (cum_series (cum_projection ip ap T e p m)) = [0..<T + 1]"
proof -
  from cum_points_shape [of "ip / 100" "ap / 100" e p T] obtain rest where rest:
    "cum_points (cum_final_state (ip / 100) (ap / 100) e p T) =
       \<lparr>cum_year = 0, cumUsd = 0, cumBtc = 0\<rparr> # rest"
    "map cum_year rest = [1..<Suc T]" by blast
  have "[0..<T + 1] = 0 # [1..<Suc T]" by (simp add: upt_rec)
  with rest show ?thesis by (simp add: cum_series_projection)
qed

lemma summary_same:
  "cum_series (cum_projection ip ap T e p Log) = cum_series (cum_projection ip ap T e p Linear)"
  "cumUsdAtT (cum_projection ip ap T e p Log) = cumUsdAtT (cum_projection ip ap T e p Linear)"
  "cumBtcAtT (cum_projection ip ap T e p Log) = cumBtcAtT (cum_projection ip ap T e p Linear)"
  "cum_lifespanInflationFactor (cum_projection ip ap T e p Log) =
     cum_lifespanInflationFactor (cum_projection ip ap T e p Linear)"
  by (simp_all add: cum_projection_def Let_def)

lemma minPositive_same:
  "minPositiveUsd (cum_projection ip ap T e p Log) = minPositiveUsd (cum_projection ip ap T e p Linear)"
  "minPositiveBtc (cum_projection ip ap T e p Log) = minPositiveBtc (cum_projection ip ap T e p Linear)"
proof -
  from cum_points_shape [of "ip / 100" "ap / 100" e p T] obtain rest where rest:
    "cum_points (cum_final_state (ip / 100) (ap / 100) e p T) =
       \<lparr>cum_year = 0, cumUsd = 0, cumBtc = 0\<rparr> # rest"
    "map cum_year rest = [1..<Suc T]" by blast
  then show
    "minPositiveUsd (cum_projection ip ap T e p Log) = minPositiveUsd (cum_projection ip ap T e p Linear)"
    "minPositiveBtc (cum_projection ip ap T e p Log) = minPositiveBtc (cum_projection ip ap T e p Linear)"
    by (simp_all add: cum_projection_def Let_def cum_final_state_def [symmetric]
        filter_positive_years)
qed

section \<open>The claims about the cumulative-cost variant\<close>

text \<open>
  C9. If the parsed override is not finite or not positive, the effective price is
  \<open>fetchedBtcPrice\<close>, the latest fetched price or the fallback constant it starts from;
  otherwise it is the parsed override. The function has no failing branch: its result is
  one of the two values, and it is finite and positive whenever the fetched price is.
\<close>

theorem C9_effective_price:
  "(\<not> isFinite (Number btcPriceInput) \<or> le_zero (Number btcPriceInput) \<longrightarrow>
      effectiveBtcPrice Number btcPriceInput fetchedBtcPrice = fetchedBtcPrice) \<and>
   (isFinite (Number btcPriceInput) \<and> \<not> le_zero (Number btcPriceInput) \<longrightarrow>
      effectiveBtcPrice Number btcPriceInput fetchedBtcPrice = Number btcPriceInput) \<and>
   (isFinite fetchedBtcPrice \<and> \<not> le_zero fetchedBtcPrice \<longrightarrow>
      isFinite (effectiveBtcPrice Number btcPriceInput fetchedBtcPrice) \<and>
      \<not> le_zero (effectiveBtcPrice Number btcPriceInput fetchedBtcPrice)) \<and>
   (effectiveBtcPrice Number btcPriceInput fetchedBtcPrice = fetchedBtcPrice \<or>
    (\<exists>x. 0 < x \<and> Number btcPriceInput = Finite x \<and>
       effectiveBtcPrice Number btcPriceInput fetchedBtcPrice = Finite x))"
proof -
  show ?thesis
    by (cases "Number btcPriceInput") (simp_all add: effectiveBtcPrice_def Let_def)
qed

theorem C9_effective_price_witness:
  "effectiveBtcPrice (\<lambda>s. if s = ''70000'' then Finite 70000 else if s = ''-5'' then Finite (- 5) else NaN)
     ''abc'' (Finite 60000) = Finite 60000 \<and>
   effectiveBtcPrice (\<lambda>s. if s = ''70000'' then Finite 70000 else if s = ''-5'' then Finite (- 5) else NaN)
     ''-5'' (Finite 60000) = Finite 60000 \<and>
   effectiveBtcPrice (\<lambda>s. if s = ''70000'' then Finite 70000 else if s = ''-5'' then Finite (- 5) else NaN)
     ''70000'' (Finite 60000) = Finite 70000"
  using
    C9_effective_price [of "\<lambda>s. if s = ''70000'' then Finite 70000 else if s = ''-5'' then Finite (- 5) else NaN"
      "''abc''" "Finite 60000"]
    C9_effective_price [of "\<lambda>s. if s = ''70000'' then Finite 70000 else if s = ''-5'' then Finite (- 5) else NaN"
      "''-5''" "Finite 60000"]
    C9_effective_price [of "\<lambda>s. if s = ''70000'' then Finite 70000 else if s = ''-5'' then Finite (- 5) else NaN"
      "''70000''" "Finite 60000"]
  by simp

text \<open>
  C10. Under the log scale the chart series is the computed series without its first
  point, the one of year 0: it holds the years \<open>1..T\<close>, so \<open>T\<close> points, none for
  \<open>T = 0\<close>. Under the linear scale it is the whole series of \<open>T + 1\<close> points. The series
  and the other returned values are the same under both scales.
\<close>

theorem C10_chart_series:
  "chartSeries (cum_projection ip ap T e p Log) = tl (cum_series (cum_projection ip ap T e p Log)) \<and>
   map cum_year (chartSeries (cum_projection ip ap T e p Log)) = [1..<T + 1] \<and>
   length (chartSeries (cum_projection ip ap T e p Log)) = T \<and>
   chartSeries (cum_projection ip ap 0 e p Log) = [] \<and>
   chartSeries (cum_projection ip ap T e p Linear) = cum_series (cum_projection ip ap T e p Linear) \<and>
   length (chartSeries (cum_projection ip ap T e p Linear)) = T + 1 \<and>
   cum_series (cum_projection ip ap T e p Log) = cum_series (cum_projection ip ap T e p Linear) \<and>
   cumUsdAtT (cum_projection ip ap T e p Log) = cumUsdAtT (cum_projection ip ap T e p Linear) \<and>
   cumBtcAtT (cum_projection ip ap T e p Log) = cumBtcAtT (cum_projection ip ap T e p Linear) \<and>
   cum_lifespanInflationFactor (cum_projection ip ap T e p Log) =
     cum_lifespanInflationFactor (cum_projection ip ap T e p Linear) \<and>
   minPositiveUsd (cum_projection ip ap T e p Log) =
     minPositiveUsd (cum_projection ip ap T e p Linear) \<and>
   minPositiveBtc (cum_projection ip ap T e p Log) =
     minPositiveBtc (cum_projection ip ap T e p Linear)"
proof -
  have years: "map cum_year (tl (cum_series (cum_projection ip ap T e p m))) = [1..<T + 1]" for m
    using years_cum_series [of ip ap T e p m] by (simp add: map_tl upt_rec del: upt_Suc)
  have empty0: "tl (cum_series (cum_projection ip ap 0 e p m)) = []" for m
    using length_cum_series [of ip ap 0 e p m]
    by (cases "cum_series (cum_projection ip ap 0 e p m)") simp_all
  show ?thesis
    by (simp add: chartSeries_Log chartSeries_Linear length_cum_series years empty0
        summary_same minPositive_same del: upt_Suc)
qed

end
